theory Spec2Isabelle
  imports Main "HOL-Library.AList"
begin

section \<open>Book records and their encodings\<close>

text \<open>
  The bookstore service of \<^verbatim>\<open>cmd/main.go\<close>: an HTTP server (Echo) in front of one MongoDB
  collection of book documents. Go strings are byte sequences, so they are \<open>string\<close>
  here (a non-ASCII letter is its UTF-8 bytes). A \<^verbatim>\<open>primitive.ObjectID\<close> is a number, and
  \<open>NilObjectID\<close> is its zero value.
\<close>

type_synonym ObjectID = nat

definition NilObjectID :: ObjectID where
  "NilObjectID = 0"

text \<open>The struct \<^verbatim>\<open>BookStore\<close> (lines 25-33), field for field.\<close>

record BookStore =
  MongoID :: ObjectID
  ID :: string
  BookName :: string
  BookAuthor :: string
  BookEdition :: string
  BookPages :: string
  BookYear :: string

text \<open>
  A \<^verbatim>\<open>bson.M\<close> with string values, as the handlers build them for filters and updates:
  an association list with one entry per key. A stored document is its \<^verbatim>\<open>_id\<close> and its
  string-valued fields; a field may be absent.
\<close>

type_synonym bsonM = "(string \<times> string) list"

record document =
  oid :: ObjectID
  doc_fields :: bsonM

type_synonym collection = "document list"

text \<open>
  The \<^verbatim>\<open>bson\<close> struct tags: \<^verbatim>\<open>ID\<close>, \<^verbatim>\<open>BookName\<close> and \<^verbatim>\<open>BookAuthor\<close> are always written;
  \<^verbatim>\<open>BookEdition\<close>, \<^verbatim>\<open>BookPages\<close> and \<^verbatim>\<open>BookYear\<close> carry \<^verbatim>\<open>omitempty\<close>, so an empty string
  is not written at all. \<^verbatim>\<open>_id\<close> carries \<^verbatim>\<open>omitempty\<close> too: a zero \<^verbatim>\<open>MongoID\<close> is left out
  and the driver generates the identifier on insert.
\<close>

definition omitempty :: "string \<Rightarrow> string \<Rightarrow> bsonM" where
  "omitempty k v = (if v = [] then [] else [(k, v)])"

definition marshal :: "BookStore \<Rightarrow> bsonM" where
  "marshal b =
     [(''ID'', ID b), (''BookName'', BookName b), (''BookAuthor'', BookAuthor b)]
     @ omitempty ''BookEdition'' (BookEdition b)
     @ omitempty ''BookPages'' (BookPages b)
     @ omitempty ''BookYear'' (BookYear b)"

definition to_document :: "ObjectID \<Rightarrow> BookStore \<Rightarrow> document" where
  "to_document fresh b =
     \<lparr>oid = (if MongoID b = NilObjectID then fresh else MongoID b), doc_fields = marshal b\<rparr>"

text \<open>Decoding a document into the struct: a field that is absent keeps Go's zero value.\<close>

definition field :: "document \<Rightarrow> string \<Rightarrow> string" where
  "field d k = (case map_of (doc_fields d) k of None \<Rightarrow> [] | Some v \<Rightarrow> v)"

definition decode :: "document \<Rightarrow> BookStore" where
  "decode d =
     \<lparr>MongoID = oid d, ID = field d ''ID'', BookName = field d ''BookName'',
      BookAuthor = field d ''BookAuthor'', BookEdition = field d ''BookEdition'',
      BookPages = field d ''BookPages'', BookYear = field d ''BookYear''\<rparr>"

text \<open>
  JSON values, for request bodies decoded into \<^verbatim>\<open>map[string]interface{}\<close> and for response
  bodies. No handler looks inside a number, so its payload is an integer.
\<close>

datatype json =
  JNull
  | JBool bool
  | JNumber int
  | JString string
  | JArray "json list"
  | JObject "(string \<times> json) list"

text \<open>
  \<^verbatim>\<open>encoding/json\<close> writes a Go string as the runes that \<^verbatim>\<open>utf8.DecodeRuneInString\<close>
  finds in it, and writes U+FFFD for every byte at which no rune starts. \<open>rune_size\<close> is
  the number of bytes of the rune at the head of a string, and \<open>0\<close> when the head byte is
  such a byte: a continuation byte or \<^verbatim>\<open>0xC0\<close>, \<^verbatim>\<open>0xC1\<close>, \<^verbatim>\<open>0xF5\<close> and above; a lead
  byte whose continuation bytes are missing or out of range (overlong forms, surrogates
  and code points above U+10FFFF are out of range).
\<close>

definition between :: "nat \<Rightarrow> nat \<Rightarrow> char \<Rightarrow> bool" where
  "between lo hi c = (lo \<le> of_char c \<and> of_char c \<le> hi)"

fun rune_size :: "string \<Rightarrow> nat" where
  "rune_size [] = 0"
| "rune_size (s0 # rest) =
     (let b = (of_char s0 :: nat) in
      if b < 0x80 then 1
      else if b < 0xC2 then 0
      else if b < 0xE0 then
        (case rest of
           s1 # _ \<Rightarrow> if between 0x80 0xBF s1 then 2 else 0
         | _ \<Rightarrow> 0)
      else if b < 0xF0 then
        (case rest of
           s1 # s2 # _ \<Rightarrow>
             if between (if b = 0xE0 then 0xA0 else 0x80) (if b = 0xED then 0x9F else 0xBF) s1
                \<and> between 0x80 0xBF s2
             then 3 else 0
         | _ \<Rightarrow> 0)
      else if b < 0xF5 then
        (case rest of
           s1 # s2 # s3 # _ \<Rightarrow>
             if between (if b = 0xF0 then 0x90 else 0x80) (if b = 0xF4 then 0x8F else 0xBF) s1
                \<and> between 0x80 0xBF s2 \<and> between 0x80 0xBF s3
             then 4 else 0
         | _ \<Rightarrow> 0)
      else 0)"

text \<open>The string a JSON reader gets back, in UTF-8; U+FFFD is the bytes \<^verbatim>\<open>EF BF BD\<close>.\<close>

fun coerce_utf8 :: "string \<Rightarrow> string" where
  "coerce_utf8 [] = []"
| "coerce_utf8 (a # s) =
     (if rune_size (a # s) = 0 then [CHR 0xEF, CHR 0xBF, CHR 0xBD] @ coerce_utf8 s
      else a # take (rune_size (a # s) - 1) s @ coerce_utf8 (drop (rune_size (a # s) - 1) s))"

text \<open>
  The \<^verbatim>\<open>json\<close> struct tags: \<^verbatim>\<open>MongoID\<close> is tagged \<^verbatim>\<open>"-"\<close> and never written; \<^verbatim>\<open>id\<close>, \<^verbatim>\<open>title\<close>
  and \<^verbatim>\<open>author\<close> are always written; \<^verbatim>\<open>edition\<close>, \<^verbatim>\<open>pages\<close> and \<^verbatim>\<open>year\<close> carry
  \<^verbatim>\<open>omitempty\<close>, which looks at the length of the Go string.
\<close>

definition json_omitempty :: "string \<Rightarrow> string \<Rightarrow> (string \<times> json) list" where
  "json_omitempty k v = (if v = [] then [] else [(k, JString (coerce_utf8 v))])"

definition json_members :: "BookStore \<Rightarrow> (string \<times> json) list" where
  "json_members b =
     [(''id'', JString (coerce_utf8 (ID b))), (''title'', JString (coerce_utf8 (BookName b))),
      (''author'', JString (coerce_utf8 (BookAuthor b)))]
     @ json_omitempty ''edition'' (BookEdition b)
     @ json_omitempty ''pages'' (BookPages b)
     @ json_omitempty ''year'' (BookYear b)"

definition to_json :: "BookStore \<Rightarrow> json" where
  "to_json b = JObject (json_members b)"

text \<open>
  A slice of books. \<^verbatim>\<open>cursor.All\<close> leaves \<^verbatim>\<open>results\<close> the nil slice it was declared as when
  the cursor holds no document, so the empty list here is always the nil slice, which
  \<^verbatim>\<open>encoding/json\<close> writes as \<^verbatim>\<open>null\<close>.
\<close>

definition json_books :: "BookStore list \<Rightarrow> json" where
  "json_books books = (if books = [] then JNull else JArray (map to_json books))"

section \<open>The storage driver\<close>

text \<open>
  The handlers reach storage through the MongoDB driver only. Each call either fails with
  an error or acts on the collection, a list of documents in storage order. What the
  driver does during one request is a \<open>driver\<close> value: for every kind of call the error
  it returns (\<open>None\<close>: the call succeeds), and the identifier it generates for an insert.
  A call that fails leaves the collection as it was.
\<close>

datatype error = ErrNoDocuments | StorageError string | NilPointer | ExecuteError string

record driver =
  list_err :: "error option"
  create_err :: "error option"
  find_err :: "error option"
  all_err :: "error option"
  find_one_err :: "error option"
  insert_err :: "error option"
  update_err :: "error option"
  delete_err :: "error option"
  new_id :: ObjectID

definition healthy :: "ObjectID \<Rightarrow> driver" where
  "healthy n =
     \<lparr>list_err = None, create_err = None, find_err = None, all_err = None,
      find_one_err = None, insert_err = None, update_err = None, delete_err = None,
      new_id = n\<rparr>"

text \<open>
  A query document gives, for each of its keys, a string or BSON null (\<open>None\<close>). It
  matches a stored document when every key with a string is a field of the document with
  that very value, and every key with null is a field the document does not have. So a
  field that is absent does not equal the empty string.
\<close>

type_synonym query = "(string \<times> string option) list"

definition matches :: "query \<Rightarrow> document \<Rightarrow> bool" where
  "matches q d = list_all (\<lambda>(k, v). map_of (doc_fields d) k = v) q"

text \<open>A \<^verbatim>\<open>bson.M\<close> of strings, or a marshalled struct, used as a query.\<close>

definition eq_query :: "bsonM \<Rightarrow> query" where
  "eq_query m = map (\<lambda>(k, v). (k, Some v)) m"

text \<open>\<^verbatim>\<open>coll.Find\<close> returns a cursor and an error, as a Go pair; the cursor is nil on error.\<close>

definition Find :: "driver \<Rightarrow> query \<Rightarrow> collection \<Rightarrow> document list option \<times> error option" where
  "Find drv q c =
     (case find_err drv of
        Some e \<Rightarrow> (None, Some e)
      | None \<Rightarrow> (Some (filter (matches q) c), None))"

text \<open>\<^verbatim>\<open>cursor.All\<close> on a cursor that is not nil.\<close>

definition All :: "driver \<Rightarrow> document list \<Rightarrow> error + BookStore list" where
  "All drv cur = (case all_err drv of Some e \<Rightarrow> Inl e | None \<Rightarrow> Inr (map decode cur))"

text \<open>\<^verbatim>\<open>coll.FindOne(...).Err()\<close>: the driver's error, or \<^verbatim>\<open>ErrNoDocuments\<close> when nothing matches.\<close>

definition FindOne_Err :: "driver \<Rightarrow> query \<Rightarrow> collection \<Rightarrow> error option" where
  "FindOne_Err drv q c =
     (case find_one_err drv of
        Some e \<Rightarrow> Some e
      | None \<Rightarrow> (case find (matches q) c of None \<Rightarrow> Some ErrNoDocuments | Some d \<Rightarrow> None))"

definition InsertOne :: "driver \<Rightarrow> BookStore \<Rightarrow> collection \<Rightarrow> (error + ObjectID) \<times> collection" where
  "InsertOne drv b c =
     (case insert_err drv of
        Some e \<Rightarrow> (Inl e, c)
      | None \<Rightarrow> (Inr (oid (to_document (new_id drv) b)), c @ [to_document (new_id drv) b]))"

text \<open>\<^verbatim>\<open>$set\<close>: every key of the update replaces the field's value, or adds the field.\<close>

fun set_fields :: "bsonM \<Rightarrow> bsonM \<Rightarrow> bsonM" where
  "set_fields [] fs = fs"
| "set_fields ((k, v) # u) fs = set_fields u (AList.update k v fs)"

definition apply_set :: "bsonM \<Rightarrow> document \<Rightarrow> document" where
  "apply_set u d = d\<lparr>doc_fields := set_fields u (doc_fields d)\<rparr>"

text \<open>\<^verbatim>\<open>UpdateOne\<close> and \<^verbatim>\<open>DeleteOne\<close> act on the first document that matches, if any.\<close>

fun update_first :: "(document \<Rightarrow> bool) \<Rightarrow> (document \<Rightarrow> document) \<Rightarrow> collection \<Rightarrow> collection" where
  "update_first P f [] = []"
| "update_first P f (d # ds) = (if P d then f d # ds else d # update_first P f ds)"

fun delete_first :: "(document \<Rightarrow> bool) \<Rightarrow> collection \<Rightarrow> collection" where
  "delete_first P [] = []"
| "delete_first P (d # ds) = (if P d then ds else d # delete_first P ds)"

definition count_one :: "(document \<Rightarrow> bool) \<Rightarrow> collection \<Rightarrow> nat" where
  "count_one P c = (if list_ex P c then 1 else 0)"

text \<open>The result is \<^verbatim>\<open>MatchedCount\<close>.\<close>

definition UpdateOne :: "driver \<Rightarrow> query \<Rightarrow> bsonM \<Rightarrow> collection \<Rightarrow> (error + nat) \<times> collection" where
  "UpdateOne drv q u c =
     (case update_err drv of
        Some e \<Rightarrow> (Inl e, c)
      | None \<Rightarrow> (Inr (count_one (matches q) c), update_first (matches q) (apply_set u) c))"

text \<open>The result is \<^verbatim>\<open>DeletedCount\<close>.\<close>

definition DeleteOne :: "driver \<Rightarrow> query \<Rightarrow> collection \<Rightarrow> (error + nat) \<times> collection" where
  "DeleteOne drv q c =
     (case delete_err drv of
        Some e \<Rightarrow> (Inl e, c)
      | None \<Rightarrow> (Inr (count_one (matches q) c), delete_first (matches q) c))"

text \<open>
  A database is its collections by name. \<^verbatim>\<open>ListCollectionNames\<close> lists the names; the
  \<^verbatim>\<open>create\<close> command adds an empty collection and fails when the name is taken.
\<close>

type_synonym database = "(string \<times> collection) list"

definition ListCollectionNames :: "driver \<Rightarrow> database \<Rightarrow> string list \<times> error option" where
  "ListCollectionNames drv db =
     (case list_err drv of Some e \<Rightarrow> ([], Some e) | None \<Rightarrow> (map fst db, None))"

definition RunCommand_create :: "driver \<Rightarrow> string \<Rightarrow> database \<Rightarrow> error option \<times> database" where
  "RunCommand_create drv name db =
     (case create_err drv of
        Some e \<Rightarrow> (Some e, db)
      | None \<Rightarrow>
          if name \<in> set (map fst db) then (Some (StorageError ''NamespaceExists''), db)
          else (None, db @ [(name, [])]))"

definition collection_of :: "database \<Rightarrow> string \<Rightarrow> collection" where
  "collection_of db name = (case map_of db name of None \<Rightarrow> [] | Some c \<Rightarrow> c)"

section \<open>Startup\<close>

text \<open>
  How a Go call ends: it returns, it panics, or \<^verbatim>\<open>log.Fatal\<close> ends the process.
\<close>

datatype 'a go = Return 'a | Panic error | Fatal

text \<open>
  \<^verbatim>\<open>prepareDatabase\<close> (lines 74-92) returns the pair of a collection handle (nil as \<open>None\<close>)
  and an error. The state is the database that \<^verbatim>\<open>client.Database(dbName)\<close> addresses, so
  \<open>dbName\<close> selects nothing further here. \<^verbatim>\<open>db.Collection\<close> only builds the handle.
\<close>

definition prepareDatabase ::
  "driver \<Rightarrow> string \<Rightarrow> string \<Rightarrow> database \<Rightarrow> (string option \<times> error option) go \<times> database" where
  "prepareDatabase drv dbName collecName db =
     (case ListCollectionNames drv db of
        (names, Some e) \<Rightarrow> (Return (None, Some e), db)
      | (names, None) \<Rightarrow>
          if collecName \<notin> set names then
            (case RunCommand_create drv collecName db of
               (Some e, db') \<Rightarrow> (Fatal, db')
             | (None, db') \<Rightarrow> (Return (Some collecName, None), db'))
          else (Return (Some collecName, None), db))"

text \<open>The three example records of \<^verbatim>\<open>prepareData\<close> (lines 97-122); \<^verbatim>\<open>MongoID\<close> is not set.\<close>

definition startData :: "BookStore list" where
  "startData =
     [\<lparr>MongoID = NilObjectID, ID = ''example1'', BookName = ''The Vortex'',
       BookAuthor = ''Jos'' @ [CHR 0xC3, CHR 0xA9] @ '' Eustasio Rivera'',
       BookEdition = ''958-30-0804-4'', BookPages = ''292'', BookYear = ''1924''\<rparr>,
      \<lparr>MongoID = NilObjectID, ID = ''example2'', BookName = ''Frankenstein'',
       BookAuthor = ''Mary Shelley'',
       BookEdition = ''978-3-649-64609-9'', BookPages = ''280'', BookYear = ''1818''\<rparr>,
      \<lparr>MongoID = NilObjectID, ID = ''example3'', BookName = ''The Black Cat'',
       BookAuthor = ''Edgar Allan Poe'',
       BookEdition = ''978-3-99168-238-7'', BookPages = ''280'', BookYear = ''1843''\<rparr>]"

text \<open>
  One iteration of the loop of \<^verbatim>\<open>prepareData\<close> (lines 131-153). The struct itself is the
  query. The error of \<^verbatim>\<open>Find\<close> is overwritten unread, so a failed \<^verbatim>\<open>Find\<close> shows as the
  nil cursor that \<^verbatim>\<open>cursor.All\<close> dereferences. With exactly one result the loop only prints.
\<close>

definition seed_book :: "driver \<Rightarrow> BookStore \<Rightarrow> collection \<Rightarrow> unit go \<times> collection" where
  "seed_book drv book c =
     (case Find drv (eq_query (marshal book)) c of
        (None, err) \<Rightarrow> (Panic NilPointer, c)
      | (Some cursor, err) \<Rightarrow>
          (case All drv cursor of
             Inl e \<Rightarrow> (Panic e, c)
           | Inr results \<Rightarrow>
               if length results > 1 then (Fatal, c)
               else if length results = 0 then
                 (case InsertOne drv book c of
                    (Inl e, c') \<Rightarrow> (Panic e, c')
                  | (Inr result, c') \<Rightarrow> (Return (), c'))
               else (Return (), c)))"

text \<open>The loop; \<open>env i\<close> is the driver's behaviour during iteration \<open>i\<close>.\<close>

fun seed_loop :: "(nat \<Rightarrow> driver) \<Rightarrow> nat \<Rightarrow> BookStore list \<Rightarrow> collection \<Rightarrow> unit go \<times> collection" where
  "seed_loop env i [] c = (Return (), c)"
| "seed_loop env i (book # rest) c =
     (case seed_book (env i) book c of
        (Return u, c') \<Rightarrow> seed_loop env (Suc i) rest c'
      | (Panic e, c') \<Rightarrow> (Panic e, c')
      | (Fatal, c') \<Rightarrow> (Fatal, c'))"

definition prepareData :: "(nat \<Rightarrow> driver) \<Rightarrow> collection \<Rightarrow> unit go \<times> collection" where
  "prepareData env c = seed_loop env 0 startData c"

text \<open>
  The start of \<^verbatim>\<open>main\<close> (lines 194-196): the error of \<^verbatim>\<open>prepareDatabase\<close> is not read, and
  \<^verbatim>\<open>prepareData\<close> runs on whatever handle came back. On a nil handle its first
  \<^verbatim>\<open>coll.Find\<close> dereferences nil. \<open>Return name\<close>: the server goes on to serve on that
  collection.
\<close>

definition startup :: "driver \<Rightarrow> (nat \<Rightarrow> driver) \<Rightarrow> database \<Rightarrow> string go \<times> database" where
  "startup drv env db =
     (case prepareDatabase drv ''exercise-1'' ''information'' db of
        (Fatal, db') \<Rightarrow> (Fatal, db')
      | (Panic e, db') \<Rightarrow> (Panic e, db')
      | (Return (None, err), db') \<Rightarrow> (Panic NilPointer, db')
      | (Return (Some name, err), db') \<Rightarrow>
          (case prepareData env (collection_of db' name) of
             (Return u, c') \<Rightarrow> (Return name, AList.update name c' db')
           | (Panic e, c') \<Rightarrow> (Panic e, AList.update name c' db')
           | (Fatal, c') \<Rightarrow> (Fatal, AList.update name c' db')))"

section \<open>Route handlers\<close>

text \<open>
  A handler answers with \<^verbatim>\<open>c.JSON(code, value)\<close> or \<^verbatim>\<open>c.Render(code, name, data)\<close>. The
  reply records that call: the status, and the JSON value or the template name with the
  data handed to it. Executing the template is the renderer's work.
\<close>

datatype view = NoData | BookRows "BookStore list" | Names "string list"

datatype reply = JSON nat json | Render nat string view

definition error_body :: "string \<Rightarrow> json" where
  "error_body msg = JObject [(''error'', JString msg)]"

definition status_body :: "string \<Rightarrow> json" where
  "status_body msg = JObject [(''status'', JString msg)]"

text \<open>
  \<^verbatim>\<open>findAllBooks\<close> (lines 161-171). Its filter \<^verbatim>\<open>bson.D{{}}\<close> is a document of one element
  with the empty key and a nil value.
\<close>

definition findAllBooks :: "driver \<Rightarrow> collection \<Rightarrow> BookStore list go" where
  "findAllBooks drv c =
     (case Find drv [([], None)] c of
        (cursor, Some e) \<Rightarrow> Panic e
      | (None, None) \<Rightarrow> Panic NilPointer
      | (Some cursor, None) \<Rightarrow>
          (case All drv cursor of Inl e \<Rightarrow> Panic e | Inr results \<Rightarrow> Return results))"

text \<open>\<^verbatim>\<open>GET /books\<close> (lines 218-221) and \<^verbatim>\<open>GET /api/books\<close> (lines 359-362).\<close>

definition get_books :: "driver \<Rightarrow> collection \<Rightarrow> reply go" where
  "get_books drv c =
     (case findAllBooks drv c of
        Return books \<Rightarrow> Return (Render 200 ''book-table'' (BookRows books))
      | Panic e \<Rightarrow> Panic e
      | Fatal \<Rightarrow> Fatal)"

definition get_api_books :: "driver \<Rightarrow> collection \<Rightarrow> reply go" where
  "get_api_books drv c =
     (case findAllBooks drv c of
        Return books \<Rightarrow> Return (JSON 200 (json_books books))
      | Panic e \<Rightarrow> Panic e
      | Fatal \<Rightarrow> Fatal)"

text \<open>
  The loop of \<^verbatim>\<open>GET /authors\<close> (lines 234-241) and of \<^verbatim>\<open>GET /years\<close> (lines 256-263), which
  differ in the field \<open>f\<close> they read. A Go \<^verbatim>\<open>map[string]bool\<close> reads \<^verbatim>\<open>false\<close> at a key it
  does not have.
\<close>

definition map_bool :: "(string \<rightharpoonup> bool) \<Rightarrow> string \<Rightarrow> bool" where
  "map_bool m k = (case m k of None \<Rightarrow> False | Some b \<Rightarrow> b)"

fun unique_loop ::
  "(BookStore \<Rightarrow> string) \<Rightarrow> BookStore list \<Rightarrow> (string \<rightharpoonup> bool) \<Rightarrow> string list \<Rightarrow> string list" where
  "unique_loop f [] seen out = out"
| "unique_loop f (book # rest) seen out =
     (if \<not> map_bool seen (f book)
      then unique_loop f rest (seen(f book \<mapsto> True)) (out @ [f book])
      else unique_loop f rest seen out)"

definition unique_view ::
  "driver \<Rightarrow> (BookStore \<Rightarrow> string) \<Rightarrow> string \<Rightarrow> collection \<Rightarrow> reply go" where
  "unique_view drv f name c =
     (case Find drv [] c of
        (cursor, Some e) \<Rightarrow> Return (JSON 500 (error_body ''Database error''))
      | (None, None) \<Rightarrow> Panic NilPointer
      | (Some cursor, None) \<Rightarrow>
          (case All drv cursor of
             Inl e \<Rightarrow> Return (JSON 500 (error_body ''Cursor error''))
           | Inr results \<Rightarrow>
               Return (Render 200 name (Names (unique_loop f results Map.empty [])))))"

definition get_authors :: "driver \<Rightarrow> collection \<Rightarrow> reply go" where
  "get_authors drv c = unique_view drv BookAuthor ''authors'' c"

definition get_years :: "driver \<Rightarrow> collection \<Rightarrow> reply go" where
  "get_years drv c = unique_view drv BookYear ''years'' c"

text \<open>
  \<^verbatim>\<open>POST /api/books\<close> (lines 276-301). \<open>bound\<close> is what \<^verbatim>\<open>c.Bind(&newBook)\<close> gives: an error,
  or the struct filled from the body.
\<close>

definition duplicate_filter :: "BookStore \<Rightarrow> query" where
  "duplicate_filter newBook =
     [(''ID'', Some (ID newBook)),
      (''BookName'', Some (BookName newBook)),
      (''BookAuthor'', Some (BookAuthor newBook)),
      (''BookEdition'', Some (BookEdition newBook)),
      (''BookPages'', Some (BookPages newBook)),
      (''BookYear'', Some (BookYear newBook))]"

definition post_books :: "driver \<Rightarrow> error + BookStore \<Rightarrow> collection \<Rightarrow> reply \<times> collection" where
  "post_books drv bound c =
     (case bound of
        Inl e \<Rightarrow> (JSON 400 (error_body ''Invalid request body''), c)
      | Inr newBook \<Rightarrow>
          (case FindOne_Err drv (duplicate_filter newBook) c of
             None \<Rightarrow> (JSON 409 (error_body ''Book already exists''), c)
           | Some e \<Rightarrow>
               (case InsertOne drv newBook c of
                  (Inl err, c') \<Rightarrow> (JSON 500 (error_body ''Could not insert book''), c')
                | (Inr r, c') \<Rightarrow> (JSON 201 (status_body ''Book created''), c'))))"

text \<open>
  \<^verbatim>\<open>PUT /api/books/:id\<close> (lines 304-340). \<open>bound\<close> is what \<^verbatim>\<open>c.Bind(&data)\<close> gives: an error,
  or the map of the body's keys; \<open>id_param\<close> is \<^verbatim>\<open>c.Param("id")\<close>. \<open>as_string\<close> is the type assertion \<^verbatim>\<open>data[k].(string)\<close>.
\<close>

definition as_string :: "(string \<rightharpoonup> json) \<Rightarrow> string \<Rightarrow> string option" where
  "as_string data k = (case data k of Some (JString v) \<Rightarrow> Some v | _ \<Rightarrow> None)"

definition assign :: "(string \<rightharpoonup> json) \<Rightarrow> string \<Rightarrow> string \<Rightarrow> bsonM \<Rightarrow> bsonM" where
  "assign data k name m =
     (case as_string data k of Some v \<Rightarrow> AList.update name v m | None \<Rightarrow> m)"

definition updateFields :: "(string \<rightharpoonup> json) \<Rightarrow> bsonM" where
  "updateFields data =
     assign data ''year'' ''BookYear''
       (assign data ''pages'' ''BookPages''
         (assign data ''edition'' ''BookEdition''
           (assign data ''author'' ''BookAuthor''
             (assign data ''title'' ''BookName'' []))))"

definition put_book ::
  "driver \<Rightarrow> string \<Rightarrow> error + (string \<rightharpoonup> json) \<Rightarrow> collection \<Rightarrow> reply \<times> collection" where
  "put_book drv id_param bound c =
     (case bound of
        Inl e \<Rightarrow> (JSON 400 (error_body ''Invalid update data''), c)
      | Inr data \<Rightarrow>
          if length (updateFields data) = 0
          then (JSON 400 (error_body ''No valid fields to update''), c)
          else
            (case UpdateOne drv [(''ID'', Some id_param)] (updateFields data) c of
               (Inl err, c') \<Rightarrow> (JSON 500 (error_body ''Could not update book''), c')
             | (Inr matched, c') \<Rightarrow>
                 if matched = 0 then (JSON 404 (error_body ''Book not found''), c')
                 else (JSON 200 (status_body ''Book updated''), c')))"

text \<open>\<^verbatim>\<open>DELETE /api/books/:id\<close> (lines 343-351).\<close>

definition delete_book :: "driver \<Rightarrow> string \<Rightarrow> collection \<Rightarrow> reply \<times> collection" where
  "delete_book drv id_param c =
     (case DeleteOne drv [(''ID'', Some id_param)] c of
        (Inl err, c') \<Rightarrow> (JSON 404 (error_body ''Book not found or already deleted''), c')
      | (Inr deleted, c') \<Rightarrow>
          if deleted = 0
          then (JSON 404 (error_body ''Book not found or already deleted''), c')
          else (JSON 200 (status_body ''Book deleted''), c'))"

text \<open>
  What the handler gives back to Echo. \<^verbatim>\<open>c.JSON\<close> writes the response. \<^verbatim>\<open>c.Render\<close> calls
  the \<^verbatim>\<open>Render\<close> method of lines 62-64, that is \<^verbatim>\<open>ExecuteTemplate\<close> on the templates loaded
  from \<^verbatim>\<open>views/*.html\<close>: on an error it writes nothing and the handler returns the error;
  otherwise it writes the page. The template set is a parameter: for a name and the data,
  the error or the page.
\<close>

type_synonym templates = "string \<Rightarrow> view \<Rightarrow> error + string"

datatype written = JSONBody nat json | HTMLBlob nat string

fun send :: "templates \<Rightarrow> reply \<Rightarrow> error + written" where
  "send t (JSON code v) = Inr (JSONBody code v)"
| "send t (Render code name data) =
     (case t name data of Inl e \<Rightarrow> Inl e | Inr page \<Rightarrow> Inr (HTMLBlob code page))"

definition handled :: "templates \<Rightarrow> reply go \<Rightarrow> (error + written) go" where
  "handled t r =
     (case r of Return reply \<Rightarrow> Return (send t reply) | Panic e \<Rightarrow> Panic e | Fatal \<Rightarrow> Fatal)"

section \<open>Notions used in the statements\<close>

text \<open>
  What a field of the matched document holds after a \<^verbatim>\<open>PUT\<close>: the body's string for the
  recognized key of that field, when there is one, and the old content otherwise.
\<close>

definition updated_field :: "(string \<rightharpoonup> json) \<Rightarrow> document \<Rightarrow> string \<Rightarrow> string option" where
  "updated_field data d name =
     (let old = map_of (doc_fields d) name;
          new = (\<lambda>k. case as_string data k of Some v \<Rightarrow> Some v | None \<Rightarrow> old)
      in if name = ''BookName'' then new ''title''
         else if name = ''BookAuthor'' then new ''author''
         else if name = ''BookEdition'' then new ''edition''
         else if name = ''BookPages'' then new ''pages''
         else if name = ''BookYear'' then new ''year''
         else old)"

text \<open>
  The values of a list in first-seen order, each once: the value at every position where
  it has not occurred before.
\<close>

definition first_seen :: "'a list \<Rightarrow> 'a list" where
  "first_seen xs = map (nth xs) (filter (\<lambda>i. xs ! i \<notin> set (take i xs)) [0..<length xs])"

fun firsts :: "'a set \<Rightarrow> 'a list \<Rightarrow> 'a list" where
  "firsts A [] = []"
| "firsts A (x # xs) = (if x \<in> A then firsts A xs else x # firsts (insert x A) xs)"

text \<open>
  The JSON value \<open>j\<close> represents the stored document \<open>d\<close>: it is an object whose keys are
  among the six names, each once; \<^verbatim>\<open>id\<close>, \<^verbatim>\<open>title\<close> and \<^verbatim>\<open>author\<close> are there with the stored
  values; \<^verbatim>\<open>edition\<close>, \<^verbatim>\<open>pages\<close> and \<^verbatim>\<open>year\<close> are there exactly when the stored value is not
  empty.
\<close>

definition stored_json :: "document \<Rightarrow> string \<Rightarrow> json" where
  "stored_json d name = JString (coerce_utf8 (field d name))"

definition represents :: "document \<Rightarrow> json \<Rightarrow> bool" where
  "represents d j =
     (case j of
        JObject ms \<Rightarrow>
          map_of ms ''id'' = Some (stored_json d ''ID'') \<and>
          map_of ms ''title'' = Some (stored_json d ''BookName'') \<and>
          map_of ms ''author'' = Some (stored_json d ''BookAuthor'') \<and>
          map_of ms ''edition'' =
            (if field d ''BookEdition'' = [] then None else Some (stored_json d ''BookEdition'')) \<and>
          map_of ms ''pages'' =
            (if field d ''BookPages'' = [] then None else Some (stored_json d ''BookPages'')) \<and>
          map_of ms ''year'' =
            (if field d ''BookYear'' = [] then None else Some (stored_json d ''BookYear'')) \<and>
          list_all (\<lambda>k. k \<in> set [''id'', ''title'', ''author'', ''edition'', ''pages'', ''year''])
            (map fst ms) \<and>
          distinct (map fst ms)
      | _ \<Rightarrow> False)"

text \<open>The status of a response that was written.\<close>

fun code_of :: "written \<Rightarrow> nat" where
  "code_of (JSONBody code v) = code"
| "code_of (HTMLBlob code page) = code"

text \<open>
  For the seeding: how many stored documents the query of a record finds; the collection
  after an iteration of the loop that returns; and the collection after \<open>n\<close> launches in
  a row, where \<open>envs k\<close> is the driver's behaviour during launch \<open>k\<close>. A launch that ends
  early leaves what it had stored.
\<close>

definition count_matches :: "BookStore \<Rightarrow> collection \<Rightarrow> nat" where
  "count_matches b c = length (filter (matches (eq_query (marshal b))) c)"

definition seed_step :: "ObjectID \<Rightarrow> BookStore \<Rightarrow> collection \<Rightarrow> collection" where
  "seed_step m b c = (if count_matches b c = 0 then c @ [to_document m b] else c)"

fun seed_runs :: "nat \<Rightarrow> (nat \<Rightarrow> nat \<Rightarrow> driver) \<Rightarrow> collection \<Rightarrow> collection" where
  "seed_runs 0 envs c = c"
| "seed_runs (Suc n) envs c = snd (prepareData (envs n) (seed_runs n envs c))"

section \<open>Facts about the driver operations\<close>

lemma matches_ID [simp]:
  "matches [(''ID'', Some i)] d = (map_of (doc_fields d) ''ID'' = Some i)"
  by (simp add: matches_def)

lemma map_of_set_fields:
  "map_of (set_fields u fs) k = (case map_of (rev u) k of Some v \<Rightarrow> Some v | None \<Rightarrow> map_of fs k)"
proof (induction u arbitrary: fs)
  case Nil
  then show ?case by simp
next
  case (Cons p u)
  obtain a b where p: "p = (a, b)" by (cases p)
  show ?case
    by (simp add: p Cons.IH update_conv' map_add_def split: option.splits)
qed

lemma map_of_assign:
  "map_of (assign data k name m) x =
     (if x = name then (case as_string data k of Some v \<Rightarrow> Some v | None \<Rightarrow> map_of m x)
      else map_of m x)"
  by (simp add: assign_def update_conv' split: option.splits)

lemma distinct_assign:
  "distinct (map fst m) \<Longrightarrow> distinct (map fst (assign data k name m))"
  by (simp add: assign_def distinct_update split: option.splits)

lemma distinct_updateFields: "distinct (map fst (updateFields data))"
  by (simp add: updateFields_def distinct_assign)

lemma assign_Nil_iff: "assign data k name m = [] \<longleftrightarrow> as_string data k = None \<and> m = []"
  by (cases m) (auto simp: assign_def split: option.splits)

lemma updateFields_Nil_iff:
  "updateFields data = [] \<longleftrightarrow>
     as_string data ''title'' = None \<and> as_string data ''author'' = None \<and>
     as_string data ''edition'' = None \<and> as_string data ''pages'' = None \<and>
     as_string data ''year'' = None"
  by (auto simp: updateFields_def assign_Nil_iff)

lemma update_first_none:
  "\<not> list_ex P c \<Longrightarrow> update_first P f c = c"
  by (induction c) auto

lemma delete_first_none:
  "\<not> list_ex P c \<Longrightarrow> delete_first P c = c"
  by (induction c) auto

lemma update_first_split:
  "\<not> list_ex P pre \<Longrightarrow> P d \<Longrightarrow> update_first P f (pre @ d # post) = pre @ f d # post"
  by (induction pre) auto

lemma delete_first_split:
  "\<not> list_ex P pre \<Longrightarrow> P d \<Longrightarrow> delete_first P (pre @ d # post) = pre @ post"
  by (induction pre) auto

lemma list_ex_first:
  "list_ex P c \<Longrightarrow> \<exists>pre d post. c = pre @ d # post \<and> \<not> list_ex P pre \<and> P d"
proof (induction c)
  case Nil
  then show ?case by simp
next
  case (Cons a c)
  show ?case
  proof (cases "P a")
    case True
    then have "a # c = [] @ a # c \<and> \<not> list_ex P [] \<and> P a" by simp
    then show ?thesis by blast
  next
    case False
    with Cons obtain pre d post where "c = pre @ d # post" "\<not> list_ex P pre" "P d" by auto
    with False have "a # c = (a # pre) @ d # post \<and> \<not> list_ex P (a # pre) \<and> P d" by simp
    then show ?thesis by blast
  qed
qed

lemma find_None_iff: "find P xs = None \<longleftrightarrow> \<not> list_ex P xs"
  by (induction xs) auto

lemma FindOne_Err_None_iff:
  "FindOne_Err drv q c = None \<longleftrightarrow> find_one_err drv = None \<and> list_ex (matches q) c"
proof (cases "find (matches q) c")
  case None
  then show ?thesis
    by (simp add: FindOne_Err_def find_None_iff [symmetric] split: option.splits)
next
  case (Some d)
  then have "find (matches q) c \<noteq> None" by simp
  then have "list_ex (matches q) c" by (simp add: find_None_iff)
  with Some show ?thesis
    by (simp add: FindOne_Err_def split: option.splits)
qed

lemma update_first_cases:
  "update_first P f c = c \<or>
   (\<exists>pre d post. c = pre @ d # post \<and> \<not> list_ex P pre \<and> P d \<and>
      update_first P f c = pre @ f d # post)"
proof (cases "list_ex P c")
  case True
  then obtain pre d post where "c = pre @ d # post" "\<not> list_ex P pre" "P d"
    using list_ex_first by blast
  then show ?thesis using update_first_split [of P pre d f post] by blast
next
  case False
  then show ?thesis by (simp add: update_first_none)
qed

lemma delete_first_cases:
  "delete_first P c = c \<or>
   (\<exists>pre d post. c = pre @ d # post \<and> \<not> list_ex P pre \<and> P d \<and>
      delete_first P c = pre @ post)"
proof (cases "list_ex P c")
  case True
  then obtain pre d post where "c = pre @ d # post" "\<not> list_ex P pre" "P d"
    using list_ex_first by blast
  then show ?thesis using delete_first_split [of P pre d post] by blast
next
  case False
  then show ?thesis by (simp add: delete_first_none)
qed

lemma snd_put_book:
  "snd (put_book drv i bound c) = c \<or>
   (\<exists>data. bound = Inr data \<and>
      snd (put_book drv i bound c) =
        update_first (matches [(''ID'', Some i)]) (apply_set (updateFields data)) c)"
  by (auto simp: put_book_def UpdateOne_def split: sum.splits option.splits)

lemma snd_delete_book:
  "snd (delete_book drv i c) = c \<or>
   snd (delete_book drv i c) = delete_first (matches [(''ID'', Some i)]) c"
  by (auto simp: delete_book_def DeleteOne_def split: option.splits)

lemma map_of_updateFields:
  "map_of (updateFields data) name =
     (if name = ''BookName'' then as_string data ''title''
      else if name = ''BookAuthor'' then as_string data ''author''
      else if name = ''BookEdition'' then as_string data ''edition''
      else if name = ''BookPages'' then as_string data ''pages''
      else if name = ''BookYear'' then as_string data ''year''
      else None)"
  by (simp add: updateFields_def map_of_assign split: option.splits)

lemma map_of_rev_distinct:
  "distinct (map fst xs) \<Longrightarrow> map_of (rev xs) = map_of xs"
  by (rule map_of_inject_set [THEN iffD2]) (simp_all add: rev_map [symmetric])

lemma apply_set_updateFields:
  "map_of (doc_fields (apply_set (updateFields data) d)) name = updated_field data d name"
  by (simp add: apply_set_def map_of_set_fields map_of_rev_distinct distinct_updateFields
      map_of_updateFields updated_field_def Let_def split: option.splits)

lemma updateFields_cong:
  assumes "\<forall>k \<in> {''title'', ''author'', ''edition'', ''pages'', ''year''}.
      as_string data k = as_string data' k"
  shows "updateFields data = updateFields data'"
  using assms by (simp add: updateFields_def assign_def)

lemma map_bool_upd: "map_bool (seen(x \<mapsto> True)) k = (k = x \<or> map_bool seen k)"
  by (simp add: map_bool_def)

lemma unique_loop_firsts:
  "(\<And>k. map_bool seen k = (k \<in> A)) \<Longrightarrow>
   unique_loop f books seen out = out @ firsts A (map f books)"
proof (induction books arbitrary: seen out A)
  case Nil
  then show ?case by simp
next
  case (Cons book rest)
  show ?case
  proof (cases "f book \<in> A")
    case True
    then show ?thesis using Cons.prems Cons.IH [of seen A out] by simp
  next
    case False
    have seen': "\<And>k. map_bool (seen(f book \<mapsto> True)) k = (k \<in> insert (f book) A)"
      using Cons.prems by (simp add: map_bool_upd)
    have "unique_loop f rest (seen(f book \<mapsto> True)) (out @ [f book])
        = (out @ [f book]) @ firsts (insert (f book) A) (map f rest)"
      by (rule Cons.IH) (rule seen')
    moreover have "\<not> map_bool seen (f book)"
      using False Cons.prems by simp
    ultimately show ?thesis using False by simp
  qed
qed

lemma firsts_positions:
  "firsts A xs = map (nth xs) (filter (\<lambda>i. xs ! i \<notin> A \<union> set (take i xs)) [0..<length xs])"
proof (induction xs arbitrary: A)
  case Nil
  then show ?case by simp
next
  case (Cons x xs)
  have upt: "[0..<length (x # xs)] = 0 # map Suc [0..<length xs]"
    by (simp add: upt_conv_Cons map_Suc_upt del: upt_Suc)
  show ?case
  proof (cases "x \<in> A")
    case True
    then have "\<And>y Q. (y \<notin> A \<and> y \<noteq> x \<and> Q) = (y \<notin> A \<and> Q)" by blast
    with True show ?thesis
      by (simp only: upt) (simp add: Cons.IH filter_map comp_def)
  next
    case False
    then show ?thesis
      by (simp only: upt) (simp add: Cons.IH filter_map comp_def conj_left_commute)
  qed
qed

lemma firsts_set: "set (firsts A xs) = set xs - A"
  by (induction xs arbitrary: A) auto

lemma firsts_distinct: "distinct (firsts A xs)"
  by (induction xs arbitrary: A) (auto simp: firsts_set)

lemma unique_loop_first_seen:
  "unique_loop f books Map.empty [] = first_seen (map f books)"
proof -
  have "unique_loop f books Map.empty [] = [] @ firsts {} (map f books)"
    by (rule unique_loop_firsts) (simp add: map_bool_def)
  then show ?thesis by (simp add: firsts_positions first_seen_def)
qed

lemma first_seen_distinct: "distinct (first_seen xs)"
  using firsts_distinct [of "{}" xs] by (simp add: firsts_positions first_seen_def)

lemma first_seen_set: "set (first_seen xs) = set xs"
  using firsts_set [of "{}" xs] by (simp add: firsts_positions first_seen_def)

lemma matches_blank: "matches [([], None)] = (\<lambda>d. map_of (doc_fields d) [] = None)"
  by (rule ext) (simp add: matches_def)

section \<open>Facts about the seeding loop\<close>

lemma matches_marshal:
  "matches (eq_query (marshal b)) (to_document m b') \<longleftrightarrow>
     ID b = ID b' \<and> BookName b = BookName b' \<and> BookAuthor b = BookAuthor b' \<and>
     (BookEdition b = [] \<or> BookEdition b = BookEdition b') \<and>
     (BookPages b = [] \<or> BookPages b = BookPages b') \<and>
     (BookYear b = [] \<or> BookYear b = BookYear b')"
  by (auto simp: matches_def eq_query_def marshal_def omitempty_def to_document_def)

lemma seed_book_healthy:
  "seed_book (healthy m) b c =
     (if 1 < count_matches b c then (Fatal, c) else (Return (), seed_step m b c))"
  by (simp add: seed_book_def Find_def All_def InsertOne_def healthy_def count_matches_def
      seed_step_def)

lemma count_step_own:
  "count_matches b (seed_step m b c) = (if count_matches b c = 0 then 1 else count_matches b c)"
  by (simp add: seed_step_def count_matches_def matches_marshal)

lemma count_step_other:
  "ID b' \<noteq> ID b \<Longrightarrow> count_matches b' (seed_step m b c) = count_matches b' c"
  by (simp add: seed_step_def count_matches_def matches_marshal)

lemma seed_step_present: "count_matches b c \<noteq> 0 \<Longrightarrow> seed_step m b c = c"
  by (simp add: seed_step_def)

lemma seed_loop_three:
  assumes "ID b1 \<noteq> ID b2" "ID b1 \<noteq> ID b3" "ID b2 \<noteq> ID b3"
  shows "seed_loop (\<lambda>i. healthy (ids i)) k [b1, b2, b3] c =
     (if 1 < count_matches b1 c then (Fatal, c)
      else if 1 < count_matches b2 c then (Fatal, seed_step (ids k) b1 c)
      else if 1 < count_matches b3 c
        then (Fatal, seed_step (ids (Suc k)) b2 (seed_step (ids k) b1 c))
      else (Return (), seed_step (ids (Suc (Suc k))) b3
             (seed_step (ids (Suc k)) b2 (seed_step (ids k) b1 c))))"
proof -
  have 21: "ID b2 \<noteq> ID b1" and 31: "ID b3 \<noteq> ID b1" and 32: "ID b3 \<noteq> ID b2"
    using assms by auto
  show ?thesis
    by (simp add: seed_book_healthy count_step_other [OF 21] count_step_other [OF 31]
        count_step_other [OF 32])
qed

lemma startData_nth: "startData = [startData ! 0, startData ! 1, startData ! 2]"
  by (simp add: startData_def)

lemma startData_three:
  "\<exists>b1 b2 b3. startData = [b1, b2, b3] \<and> ID b1 \<noteq> ID b2 \<and> ID b1 \<noteq> ID b3 \<and> ID b2 \<noteq> ID b3"
  by (simp add: startData_def)

lemma prepareData_healthy:
  fixes c :: collection and ids :: "nat \<Rightarrow> ObjectID"
  defines "r \<equiv> prepareData (\<lambda>i. healthy (ids i)) c"
  shows "((\<forall>b \<in> set startData. count_matches b c \<le> 1) \<longrightarrow>
            fst r = Return () \<and> (\<forall>b \<in> set startData. count_matches b (snd r) = 1))"
    and "((\<forall>b \<in> set startData. count_matches b c = 1) \<longrightarrow> r = (Return (), c))"
    and "((\<exists>b \<in> set startData. 1 < count_matches b c) \<longrightarrow>
            fst r = Fatal \<and> (\<exists>b \<in> set startData. 1 < count_matches b (snd r)))"
proof -
  obtain b1 b2 b3 where sd: "startData = [b1, b2, b3]"
    and d: "ID b1 \<noteq> ID b2" "ID b1 \<noteq> ID b3" "ID b2 \<noteq> ID b3"
    using startData_three by blast
  have d': "ID b2 \<noteq> ID b1" "ID b3 \<noteq> ID b1" "ID b3 \<noteq> ID b2"
    using d by auto
  note loop = seed_loop_three [OF d, of ids 0 c]
  show "(\<forall>b \<in> set startData. count_matches b c \<le> 1) \<longrightarrow>
            fst r = Return () \<and> (\<forall>b \<in> set startData. count_matches b (snd r) = 1)"
    unfolding r_def prepareData_def sd loop
    by (simp add: count_step_own count_step_other d d')
  show "(\<forall>b \<in> set startData. count_matches b c = 1) \<longrightarrow> r = (Return (), c)"
    unfolding r_def prepareData_def sd loop
    by (simp add: seed_step_present)
  show "(\<exists>b \<in> set startData. 1 < count_matches b c) \<longrightarrow>
            fst r = Fatal \<and> (\<exists>b \<in> set startData. 1 < count_matches b (snd r))"
    unfolding r_def prepareData_def sd loop
    by (auto simp add: count_step_own count_step_other d d')
qed


lemma seed_runs_clean:
  assumes "\<forall>b \<in> set startData. count_matches b c \<le> 1"
  shows "fst (prepareData (\<lambda>i. healthy (ids n i)) (seed_runs n (\<lambda>k i. healthy (ids k i)) c))
           = Return () \<and>
         (\<forall>b \<in> set startData.
            count_matches b (seed_runs (Suc n) (\<lambda>k i. healthy (ids k i)) c) = 1) \<and>
         seed_runs (Suc n) (\<lambda>k i. healthy (ids k i)) c
           = seed_runs (Suc 0) (\<lambda>k i. healthy (ids k i)) c"
proof (induction n)
  case 0
  show ?case
    using assms prepareData_healthy(1) [of c "ids 0"] by simp
next
  case (Suc n)
  let ?R = "seed_runs (Suc n) (\<lambda>k i. healthy (ids k i)) c"
  from Suc.IH have seeded: "\<forall>b \<in> set startData. count_matches b ?R = 1" by blast
  then have "prepareData (\<lambda>i. healthy (ids (Suc n) i)) ?R = (Return (), ?R)"
    using prepareData_healthy(2) [of ?R "ids (Suc n)"] by blast
  moreover from Suc.IH have "?R = seed_runs (Suc 0) (\<lambda>k i. healthy (ids k i)) c" by blast
  ultimately show ?case using seeded by simp
qed

lemma seed_runs_duplicated:
  assumes "\<exists>b \<in> set startData. 1 < count_matches b c"
  shows "\<exists>b \<in> set startData. 1 < count_matches b (seed_runs n (\<lambda>k i. healthy (ids k i)) c)"
proof (induction n)
  case 0
  show ?case using assms by simp
next
  case (Suc n)
  show ?case
    using Suc.IH
      prepareData_healthy(3) [of "seed_runs n (\<lambda>k i. healthy (ids k i)) c" "ids n"]
    by simp
qed

section \<open>Facts about the list routes\<close>

lemma field_oid: "field (d\<lparr>oid := n\<rparr>) k = field d k"
  by (simp add: field_def)

lemma to_json_decode_oid: "to_json (decode (d\<lparr>oid := n\<rparr>)) = to_json (decode d)"
  by (simp add: to_json_def json_members_def decode_def field_oid)

lemma represents_decode: "represents d (to_json (decode d))"
  by (simp add: represents_def to_json_def json_members_def json_omitempty_def decode_def
      stored_json_def)

lemma list_all2_map_self: "(\<And>x. P x (g x)) \<Longrightarrow> list_all2 P xs (map g xs)"
  by (induction xs) simp_all

lemma json_books_decode:
  "json_books (map decode ds) =
     (if map (\<lambda>d. to_json (decode d)) ds = [] then JNull
      else JArray (map (\<lambda>d. to_json (decode d)) ds))"
  by (simp add: json_books_def comp_def)

lemma findAllBooks_healthy:
  "find_err drv = None \<Longrightarrow> all_err drv = None \<Longrightarrow>
   findAllBooks drv c = Return (map decode (filter (\<lambda>d. map_of (doc_fields d) [] = None) c))"
  by (simp add: findAllBooks_def Find_def All_def matches_blank)

lemma findAllBooks_failing:
  "find_err drv \<noteq> None \<or> all_err drv \<noteq> None \<Longrightarrow> \<exists>e. findAllBooks drv c = Panic e"
  by (auto simp: findAllBooks_def Find_def All_def split: option.splits)

lemma filter_blank_oid:
  "filter (\<lambda>d. map_of (doc_fields d) [] = None) (map (\<lambda>d. d\<lparr>oid := f d\<rparr>) c)
     = map (\<lambda>d. d\<lparr>oid := f d\<rparr>) (filter (\<lambda>d. map_of (doc_fields d) [] = None) c)"
  by (induction c) simp_all

section \<open>Properties of startup and of the handlers\<close>

text \<open>
  C1, as the code behaves on a record whose optional fields are empty. Posting the record
  \<open>b4\<close> (title and author only) into the empty collection stores a document without the
  three optional fields; it reads back as the same six field values. Posting the same
  record again is answered 201 and stores a second copy: the duplicate filter asks for
  \<^verbatim>\<open>BookEdition\<close>, \<^verbatim>\<open>BookPages\<close> and \<^verbatim>\<open>BookYear\<close> equal to the empty string, which the
  stored document does not have.
\<close>

theorem post_duplicate_not_detected:
  "post_books (healthy 1)
     (Inr \<lparr>MongoID = NilObjectID, ID = ''b4'', BookName = ''Dune'',
           BookAuthor = ''Frank Herbert'', BookEdition = [], BookPages = [], BookYear = []\<rparr>) []
   = (JSON 201 (status_body ''Book created''),
      [\<lparr>oid = 1, doc_fields =
          [(''ID'', ''b4''), (''BookName'', ''Dune''), (''BookAuthor'', ''Frank Herbert'')]\<rparr>])
   \<and> decode \<lparr>oid = 1, doc_fields =
          [(''ID'', ''b4''), (''BookName'', ''Dune''), (''BookAuthor'', ''Frank Herbert'')]\<rparr>
   = \<lparr>MongoID = 1, ID = ''b4'', BookName = ''Dune'',
           BookAuthor = ''Frank Herbert'', BookEdition = [], BookPages = [], BookYear = []\<rparr>
   \<and> post_books (healthy 2)
     (Inr \<lparr>MongoID = NilObjectID, ID = ''b4'', BookName = ''Dune'',
           BookAuthor = ''Frank Herbert'', BookEdition = [], BookPages = [], BookYear = []\<rparr>)
     [\<lparr>oid = 1, doc_fields =
          [(''ID'', ''b4''), (''BookName'', ''Dune''), (''BookAuthor'', ''Frank Herbert'')]\<rparr>]
   = (JSON 201 (status_body ''Book created''),
      [\<lparr>oid = 1, doc_fields =
          [(''ID'', ''b4''), (''BookName'', ''Dune''), (''BookAuthor'', ''Frank Herbert'')]\<rparr>,
       \<lparr>oid = 2, doc_fields =
          [(''ID'', ''b4''), (''BookName'', ''Dune''), (''BookAuthor'', ''Frank Herbert'')]\<rparr>])"
  by (simp add: post_books_def FindOne_Err_def InsertOne_def healthy_def duplicate_filter_def
      matches_def to_document_def marshal_def omitempty_def NilObjectID_def decode_def field_def)

text \<open>
  C2: with no recognized string-valued key the answer is 400 and nothing changes.
  Otherwise, when the update call does not fail, the first document with the external id
  of the path gets exactly the supplied fields set; its other fields, its external id and
  its internal id stay, as do all other documents. Two bodies that agree on the recognized
  string-valued keys have the same effect, so other keys and values that are not strings
  are ignored.
\<close>

theorem put_partial_field_law:
  "((\<forall>k \<in> {''title'', ''author'', ''edition'', ''pages'', ''year''}. as_string data k = None)
      \<longrightarrow> put_book drv i (Inr data) c
            = (JSON 400 (error_body ''No valid fields to update''), c)) \<and>
   ((\<exists>k \<in> {''title'', ''author'', ''edition'', ''pages'', ''year''}. as_string data k \<noteq> None)
      \<and> update_err drv = None
      \<and> (\<forall>x \<in> set pre. map_of (doc_fields x) ''ID'' \<noteq> Some i)
      \<and> map_of (doc_fields d) ''ID'' = Some i
      \<longrightarrow> (\<exists>d'. put_book drv i (Inr data) (pre @ d # post)
                   = (JSON 200 (status_body ''Book updated''), pre @ d' # post)
               \<and> oid d' = oid d
               \<and> (\<forall>name. map_of (doc_fields d') name = updated_field data d name))) \<and>
   ((\<forall>k \<in> {''title'', ''author'', ''edition'', ''pages'', ''year''}.
        as_string data k = as_string data' k)
      \<longrightarrow> put_book drv i (Inr data) c = put_book drv i (Inr data') c)"
proof (intro conjI impI)
  assume "\<forall>k \<in> {''title'', ''author'', ''edition'', ''pages'', ''year''}. as_string data k = None"
  then have "updateFields data = []" by (simp add: updateFields_Nil_iff)
  then show "put_book drv i (Inr data) c = (JSON 400 (error_body ''No valid fields to update''), c)"
    by (simp add: put_book_def)
next
  assume a: "(\<exists>k \<in> {''title'', ''author'', ''edition'', ''pages'', ''year''}. as_string data k \<noteq> None)
      \<and> update_err drv = None
      \<and> (\<forall>x \<in> set pre. map_of (doc_fields x) ''ID'' \<noteq> Some i)
      \<and> map_of (doc_fields d) ''ID'' = Some i"
  then have ne: "updateFields data \<noteq> []" by (auto simp: updateFields_Nil_iff)
  from a have pre: "\<not> list_ex (matches [(''ID'', Some i)]) pre" by (simp add: list_ex_iff)
  from a have d: "matches [(''ID'', Some i)] d" by simp
  have ex: "list_ex (matches [(''ID'', Some i)]) (pre @ d # post)"
    using d by (simp add: list_ex_iff del: matches_ID)
  have "put_book drv i (Inr data) (pre @ d # post)
      = (JSON 200 (status_body ''Book updated''),
         pre @ apply_set (updateFields data) d # post)"
    using a ne ex update_first_split [OF pre d]
    by (simp add: put_book_def UpdateOne_def count_one_def del: matches_ID)
  moreover have "oid (apply_set (updateFields data) d) = oid d"
    by (simp add: apply_set_def)
  ultimately show "\<exists>d'. put_book drv i (Inr data) (pre @ d # post)
                   = (JSON 200 (status_body ''Book updated''), pre @ d' # post)
               \<and> oid d' = oid d
               \<and> (\<forall>name. map_of (doc_fields d') name = updated_field data d name)"
    using apply_set_updateFields by blast
next
  assume "\<forall>k \<in> {''title'', ''author'', ''edition'', ''pages'', ''year''}.
        as_string data k = as_string data' k"
  then have "updateFields data = updateFields data'" by (rule updateFields_cong)
  then show "put_book drv i (Inr data) c = put_book drv i (Inr data') c"
    by (simp add: put_book_def)
qed


theorem put_partial_field_law_witness:
  "put_book (healthy 0) ''b4''
      (Inr [''year'' \<mapsto> JString ''1965'', ''pages'' \<mapsto> JNumber 412, ''id'' \<mapsto> JString ''b5''])
      ([to_document 1 (hd startData)] @
       \<lparr>oid = 2, doc_fields = [(''ID'', ''b4''), (''BookName'', ''Dune''), (''BookAuthor'', ''Frank Herbert'')]\<rparr>
       # [\<lparr>oid = 3, doc_fields = [(''ID'', ''b4''), (''BookName'', ''Emma'')]\<rparr>])
    = (JSON 200 (status_body ''Book updated''),
       [to_document 1 (hd startData)] @
       \<lparr>oid = 2, doc_fields = [(''ID'', ''b4''), (''BookName'', ''Dune''), (''BookAuthor'', ''Frank Herbert''),
          (''BookYear'', ''1965'')]\<rparr>
       # [\<lparr>oid = 3, doc_fields = [(''ID'', ''b4''), (''BookName'', ''Emma'')]\<rparr>]) \<and>
   put_book (healthy 0) ''b4'' (Inr [''pages'' \<mapsto> JNumber 412, ''id'' \<mapsto> JString ''b5''])
      [to_document 1 (hd startData)]
    = (JSON 400 (error_body ''No valid fields to update''), [to_document 1 (hd startData)])"
  using put_partial_field_law [of "[''year'' \<mapsto> JString ''1965'', ''pages'' \<mapsto> JNumber 412, ''id'' \<mapsto> JString ''b5'']"
      "healthy 0" "''b4''" "[to_document 1 (hd startData)]" "[to_document 1 (hd startData)]"
      "\<lparr>oid = 2, doc_fields = [(''ID'', ''b4''), (''BookName'', ''Dune''), (''BookAuthor'', ''Frank Herbert'')]\<rparr>"
      "[\<lparr>oid = 3, doc_fields = [(''ID'', ''b4''), (''BookName'', ''Emma'')]\<rparr>]"
      "[''year'' \<mapsto> JString ''1965'']"]
    put_partial_field_law [of "[''pages'' \<mapsto> JNumber 412, ''id'' \<mapsto> JString ''b5'']"
      "healthy 0" "''b4''" "[to_document 1 (hd startData)]"]
  by (simp add: put_book_def UpdateOne_def healthy_def updateFields_def assign_def as_string_def
      count_one_def apply_set_def to_document_def marshal_def startData_def omitempty_def
      matches_def)

text \<open>
  C3: when no stored document has the external id of the path, \<^verbatim>\<open>DELETE\<close> answers 404
  (whatever the driver does) and \<^verbatim>\<open>PUT\<close> with at least one recognized string-valued key
  answers 404 (when the update call itself does not fail); the collection is unchanged.
\<close>

theorem not_found_law:
  assumes "\<forall>d \<in> set c. map_of (doc_fields d) ''ID'' \<noteq> Some i"
  shows "delete_book drv i c = (JSON 404 (error_body ''Book not found or already deleted''), c) \<and>
     (update_err drv = None \<and>
      (\<exists>k \<in> {''title'', ''author'', ''edition'', ''pages'', ''year''}. as_string data k \<noteq> None)
      \<longrightarrow> put_book drv i (Inr data) c = (JSON 404 (error_body ''Book not found''), c))"
proof -
  from assms have none: "\<not> list_ex (matches [(''ID'', Some i)]) c"
    by (simp add: list_ex_iff)
  have del: "delete_book drv i c = (JSON 404 (error_body ''Book not found or already deleted''), c)"
    using none
    by (simp add: delete_book_def DeleteOne_def count_one_def delete_first_none
        split: option.splits)
  have upd: "put_book drv i (Inr data) c = (JSON 404 (error_body ''Book not found''), c)"
    if "update_err drv = None" "updateFields data \<noteq> []"
    using none that
    by (simp add: put_book_def UpdateOne_def count_one_def update_first_none)
  show ?thesis
    using del upd by (auto simp: updateFields_Nil_iff)
qed

theorem not_found_law_witness:
  "list_all (\<lambda>d. map_of (doc_fields d) ''ID'' \<noteq> Some ''b9'') [to_document 1 (hd startData)] \<and>
   delete_book (healthy 0) ''b9'' [to_document 1 (hd startData)]
     = (JSON 404 (error_body ''Book not found or already deleted''),
        [to_document 1 (hd startData)]) \<and>
   put_book (healthy 0) ''b9'' (Inr [''year'' \<mapsto> JString ''1965''])
       [to_document 1 (hd startData)]
     = (JSON 404 (error_body ''Book not found''), [to_document 1 (hd startData)])"
proof -
  have h: "\<forall>d \<in> set [to_document 1 (hd startData)]. map_of (doc_fields d) ''ID'' \<noteq> Some ''b9''"
    by (simp add: to_document_def marshal_def startData_def)
  show ?thesis
    using h not_found_law [OF h, of "healthy 0" "[''year'' \<mapsto> JString ''1965'']"]
    by (simp add: healthy_def as_string_def)
qed

text \<open>
  C4: with a driver that does not fail, one iteration of the seeding loop inserts the
  record when its query finds nothing, changes nothing when it finds exactly one document,
  and ends the process when it finds more than one. Hence, when no example record is
  stored more than once, every launch returns, after any number of launches each example
  record is stored exactly once, and the collection is the one the first launch left;
  when an example record is stored more than once, every launch ends the process.
\<close>

theorem seeding_idempotent:
  "(count_matches b c = 0 \<longrightarrow>
      seed_book (healthy m) b c = (Return (), c @ [to_document m b])) \<and>
   (count_matches b c = 1 \<longrightarrow> seed_book (healthy m) b c = (Return (), c)) \<and>
   (1 < count_matches b c \<longrightarrow> seed_book (healthy m) b c = (Fatal, c)) \<and>
   ((\<forall>b \<in> set startData. count_matches b c \<le> 1) \<longrightarrow>
      fst (prepareData (\<lambda>i. healthy (ids n i)) (seed_runs n (\<lambda>k i. healthy (ids k i)) c))
        = Return () \<and>
      (\<forall>b \<in> set startData.
         count_matches b (seed_runs (Suc n) (\<lambda>k i. healthy (ids k i)) c) = 1) \<and>
      seed_runs (Suc n) (\<lambda>k i. healthy (ids k i)) c
        = seed_runs (Suc 0) (\<lambda>k i. healthy (ids k i)) c) \<and>
   ((\<exists>b \<in> set startData. 1 < count_matches b c) \<longrightarrow>
      fst (prepareData (\<lambda>i. healthy (ids n i)) (seed_runs n (\<lambda>k i. healthy (ids k i)) c))
        = Fatal)"
proof -
  have step: "(count_matches b c = 0 \<longrightarrow>
      seed_book (healthy m) b c = (Return (), c @ [to_document m b])) \<and>
   (count_matches b c = 1 \<longrightarrow> seed_book (healthy m) b c = (Return (), c)) \<and>
   (1 < count_matches b c \<longrightarrow> seed_book (healthy m) b c = (Fatal, c))"
    by (simp add: seed_book_healthy seed_step_def)
  have dup: "fst (prepareData (\<lambda>i. healthy (ids n i))
        (seed_runs n (\<lambda>k i. healthy (ids k i)) c)) = Fatal"
    if "\<exists>b \<in> set startData. 1 < count_matches b c"
    using seed_runs_duplicated [OF that, where ids = ids and n = n]
      prepareData_healthy(3) [of "seed_runs n (\<lambda>k i. healthy (ids k i)) c" "ids n"]
    by blast
  show ?thesis
    using step seed_runs_clean [of c ids n] dup by blast
qed

theorem seeding_idempotent_witness:
  "seed_runs (Suc 2) (\<lambda>k i. healthy (10 * k + i + 1)) []
     = seed_runs (Suc 0) (\<lambda>k i. healthy (10 * k + i + 1)) [] \<and>
   list_all (\<lambda>b. count_matches b (seed_runs (Suc 2) (\<lambda>k i. healthy (10 * k + i + 1)) []) = 1)
     startData \<and>
   fst (prepareData (\<lambda>i. healthy (10 * 2 + i + 1))
          (seed_runs 2 (\<lambda>k i. healthy (10 * k + i + 1)) [])) = Return () \<and>
   map ID (map decode (seed_runs (Suc 0) (\<lambda>k i. healthy (10 * k + i + 1)) []))
     = [''example1'', ''example2'', ''example3''] \<and>
   seed_book (healthy 9) (startData ! 1)
       [to_document 7 (startData ! 1), to_document 8 (startData ! 1)]
     = (Fatal, [to_document 7 (startData ! 1), to_document 8 (startData ! 1)]) \<and>
   fst (prepareData (\<lambda>i. healthy (i + 20))
       [to_document 7 (startData ! 1), to_document 8 (startData ! 1)]) = Fatal"
proof -
  let ?dup = "[to_document 7 (startData ! 1), to_document 8 (startData ! 1)]"
  have none: "\<forall>b \<in> set startData. count_matches b [] \<le> 1"
    by (simp add: count_matches_def)
  have "count_matches (startData ! 1) ?dup = 2"
    by (simp add: count_matches_def matches_marshal)
  then have gt: "1 < count_matches (startData ! 1) ?dup"
    by simp
  have "startData ! 1 \<in> set startData"
    by (simp add: startData_def)
  with gt have dup: "\<exists>b \<in> set startData. 1 < count_matches b ?dup"
    by blast
  have first: "map ID (map decode (seed_runs (Suc 0) (\<lambda>k i. healthy (10 * k + i + 1)) []))
     = [''example1'', ''example2'', ''example3'']"
    by (simp add: prepareData_def seed_book_healthy seed_step_def count_matches_def
        matches_def eq_query_def startData_def decode_def field_def to_document_def
        marshal_def omitempty_def)
  have clean: "fst (prepareData (\<lambda>i. healthy (10 * 2 + i + 1))
          (seed_runs 2 (\<lambda>k i. healthy (10 * k + i + 1)) [])) = Return () \<and>
      (\<forall>b \<in> set startData.
         count_matches b (seed_runs (Suc 2) (\<lambda>k i. healthy (10 * k + i + 1)) []) = 1) \<and>
      seed_runs (Suc 2) (\<lambda>k i. healthy (10 * k + i + 1)) []
        = seed_runs (Suc 0) (\<lambda>k i. healthy (10 * k + i + 1)) []"
    using seeding_idempotent [where c = "[]" and n = 2 and ids = "\<lambda>k i. 10 * k + i + 1"
        and b = "startData ! 1" and m = 9] none
    by blast
  then have "\<forall>b \<in> set startData.
      count_matches b (seed_runs (Suc 2) (\<lambda>k i. healthy (10 * k + i + 1)) []) = 1"
    by blast
  then have every: "list_all
      (\<lambda>b. count_matches b (seed_runs (Suc 2) (\<lambda>k i. healthy (10 * k + i + 1)) []) = 1)
      startData"
    by (simp only: list_all_iff)
  have "seed_runs 0 (\<lambda>k i. healthy (i + 20)) ?dup = ?dup"
    by simp
  then have fatal: "seed_book (healthy 9) (startData ! 1) ?dup = (Fatal, ?dup) \<and>
      fst (prepareData (\<lambda>i. healthy (i + 20)) ?dup) = Fatal"
    using seeding_idempotent [where c = ?dup and n = 0 and ids = "\<lambda>k i. i + 20"
        and b = "startData ! 1" and m = 9] gt dup
    by metis
  show ?thesis
    using clean every first fatal by blast
qed

text \<open>
  C5: when listing the collections succeeds, \<^verbatim>\<open>prepareDatabase\<close> creates the collection
  exactly when its name is not listed, and returns the handle. When the creation fails it
  ends the process. When the listing fails it returns a nil handle and the error, which
  \<^verbatim>\<open>main\<close> does not read: \<^verbatim>\<open>prepareData\<close> then dereferences the nil handle, so startup ends
  in a panic before any request is served.
\<close>

theorem storage_bootstrap_contract:
  "(list_err drv = None \<and> name \<in> set (map fst db) \<longrightarrow>
      prepareDatabase drv dbName name db = (Return (Some name, None), db)) \<and>
   (list_err drv = None \<and> name \<notin> set (map fst db) \<and> create_err drv = None \<longrightarrow>
      prepareDatabase drv dbName name db = (Return (Some name, None), db @ [(name, [])])) \<and>
   (list_err drv = None \<and> name \<notin> set (map fst db) \<and> create_err drv \<noteq> None \<longrightarrow>
      prepareDatabase drv dbName name db = (Fatal, db)) \<and>
   (list_err drv = None \<and> ''information'' \<notin> set (map fst db) \<and> create_err drv \<noteq> None \<longrightarrow>
      startup drv env db = (Fatal, db)) \<and>
   (list_err drv \<noteq> None \<longrightarrow>
      (\<exists>e. prepareDatabase drv dbName name db = (Return (None, Some e), db)) \<and>
      startup drv env db = (Panic NilPointer, db))"
  by (auto simp: prepareDatabase_def ListCollectionNames_def RunCommand_create_def startup_def
      split: option.splits)

theorem storage_bootstrap_contract_witness:
  "prepareDatabase (healthy 0) ''exercise-1'' ''information'' [(''other'', [])]
     = (Return (Some ''information'', None), [(''other'', []), (''information'', [])]) \<and>
   prepareDatabase (healthy 0) ''exercise-1'' ''information'' [(''information'', [])]
     = (Return (Some ''information'', None), [(''information'', [])]) \<and>
   startup ((healthy 0)\<lparr>create_err := Some (StorageError ''denied'')\<rparr>) (\<lambda>i. healthy i)
       [(''other'', [])]
     = (Fatal, [(''other'', [])]) \<and>
   startup ((healthy 0)\<lparr>list_err := Some (StorageError ''down'')\<rparr>) (\<lambda>i. healthy i)
       [(''information'', [])]
     = (Panic NilPointer, [(''information'', [])])"
  using storage_bootstrap_contract
      [of "healthy 0" "''information''" "[(''other'', [])]" "''exercise-1''"]
    storage_bootstrap_contract
      [of "healthy 0" "''information''" "[(''information'', [])]" "''exercise-1''"]
    storage_bootstrap_contract
      [of "(healthy 0)\<lparr>create_err := Some (StorageError ''denied'')\<rparr>" "''information''"
          "[(''other'', [])]" "''exercise-1''" "\<lambda>i. healthy i"]
    storage_bootstrap_contract
      [of "(healthy 0)\<lparr>list_err := Some (StorageError ''down'')\<rparr>" "''information''"
          "[(''information'', [])]" "''exercise-1''" "\<lambda>i. healthy i"]
  by (simp add: healthy_def)

text \<open>
  C6: when the query and the cursor do not fail, \<^verbatim>\<open>GET /authors\<close> and \<^verbatim>\<open>GET /years\<close> hand
  to their template the authors and the years of all stored records in first-seen order,
  each distinct value once.
\<close>

theorem derived_lists:
  "find_err drv = None \<and> all_err drv = None \<longrightarrow>
     get_authors drv c
       = Return (Render 200 ''authors'' (Names (first_seen (map (\<lambda>d. BookAuthor (decode d)) c)))) \<and>
     get_years drv c
       = Return (Render 200 ''years'' (Names (first_seen (map (\<lambda>d. BookYear (decode d)) c)))) \<and>
     distinct (first_seen (map (\<lambda>d. BookAuthor (decode d)) c)) \<and>
     set (first_seen (map (\<lambda>d. BookAuthor (decode d)) c)) = set (map (\<lambda>d. BookAuthor (decode d)) c) \<and>
     distinct (first_seen (map (\<lambda>d. BookYear (decode d)) c)) \<and>
     set (first_seen (map (\<lambda>d. BookYear (decode d)) c)) = set (map (\<lambda>d. BookYear (decode d)) c)"
  by (simp add: get_authors_def get_years_def unique_view_def Find_def All_def matches_def
      unique_loop_first_seen first_seen_distinct first_seen_set comp_def)


theorem derived_lists_witness:
  "get_authors (healthy 0)
     [\<lparr>oid = 1, doc_fields = [(''ID'', ''a''), (''BookAuthor'', ''Poe''), (''BookYear'', ''1843'')]\<rparr>,
      \<lparr>oid = 2, doc_fields = [(''ID'', ''b''), (''BookAuthor'', ''Shelley''), (''BookYear'', ''1818'')]\<rparr>,
      \<lparr>oid = 3, doc_fields = [(''ID'', ''c''), (''BookAuthor'', ''Poe''), (''BookYear'', ''1845'')]\<rparr>]
   = Return (Render 200 ''authors'' (Names [''Poe'', ''Shelley''])) \<and>
   get_years (healthy 0)
     [\<lparr>oid = 1, doc_fields = [(''ID'', ''a''), (''BookAuthor'', ''Poe''), (''BookYear'', ''1843'')]\<rparr>,
      \<lparr>oid = 2, doc_fields = [(''ID'', ''b''), (''BookAuthor'', ''Shelley''), (''BookYear'', ''1818'')]\<rparr>,
      \<lparr>oid = 3, doc_fields = [(''ID'', ''c''), (''BookAuthor'', ''Poe''), (''BookYear'', ''1845'')]\<rparr>]
   = Return (Render 200 ''years'' (Names [''1843'', ''1818'', ''1845'']))"
  using derived_lists [of "healthy 0"
     "[\<lparr>oid = 1, doc_fields = [(''ID'', ''a''), (''BookAuthor'', ''Poe''), (''BookYear'', ''1843'')]\<rparr>,
      \<lparr>oid = 2, doc_fields = [(''ID'', ''b''), (''BookAuthor'', ''Shelley''), (''BookYear'', ''1818'')]\<rparr>,
      \<lparr>oid = 3, doc_fields = [(''ID'', ''c''), (''BookAuthor'', ''Poe''), (''BookYear'', ''1845'')]\<rparr>]"]
  by (simp add: healthy_def first_seen_def decode_def field_def upt_rec)

text \<open>
  C7: when the query and the cursor do not fail, the body of \<^verbatim>\<open>GET /api/books\<close> is JSON
  \<^verbatim>\<open>null\<close> when no document is found and otherwise the array of one object per document
  found, in storage order. Each object has \<^verbatim>\<open>id\<close>, \<^verbatim>\<open>title\<close> and \<^verbatim>\<open>author\<close> with the stored
  values; it has \<^verbatim>\<open>edition\<close>, \<^verbatim>\<open>pages\<close> and \<^verbatim>\<open>year\<close> exactly when the stored value is not
  empty; it has no other key. The response is the same whatever the internal identifiers
  of the documents are.
\<close>

theorem json_representation_law:
  "(find_err drv = None \<and> all_err drv = None \<longrightarrow>
      (\<exists>js. list_all2 represents (filter (\<lambda>d. map_of (doc_fields d) [] = None) c) js \<and>
            get_api_books drv c = Return (JSON 200 (if js = [] then JNull else JArray js)))) \<and>
   get_api_books drv (map (\<lambda>d. d\<lparr>oid := f d\<rparr>) c) = get_api_books drv c"
proof (intro conjI impI)
  let ?found = "filter (\<lambda>d. map_of (doc_fields d) [] = None) c"
  let ?js = "map (\<lambda>d. to_json (decode d)) ?found"
  assume ok: "find_err drv = None \<and> all_err drv = None"
  have "list_all2 represents ?found ?js"
    by (rule list_all2_map_self) (rule represents_decode)
  moreover have "get_api_books drv c = Return (JSON 200 (if ?js = [] then JNull else JArray ?js))"
    using ok by (simp add: get_api_books_def findAllBooks_healthy json_books_decode)
  ultimately show "\<exists>js. list_all2 represents ?found js \<and>
      get_api_books drv c = Return (JSON 200 (if js = [] then JNull else JArray js))"
    by blast
next
  show "get_api_books drv (map (\<lambda>d. d\<lparr>oid := f d\<rparr>) c) = get_api_books drv c"
  proof (cases "find_err drv = None \<and> all_err drv = None")
    case True
    then show ?thesis
      by (simp add: get_api_books_def findAllBooks_healthy filter_blank_oid json_books_def
          comp_def to_json_decode_oid)
  next
    case False
    then show ?thesis
      by (auto simp: get_api_books_def findAllBooks_def Find_def All_def split: option.splits)
  qed
qed

theorem json_representation_law_witness:
  "get_api_books (healthy 0) [] = Return (JSON 200 JNull) \<and>
   get_api_books (healthy 0)
     [\<lparr>oid = 7, doc_fields = [(''ID'', ''b4''), (''BookName'', ''Dune''),
         (''BookAuthor'', ''Frank Herbert''), (''BookYear'', ''1965'')]\<rparr>,
      \<lparr>oid = 8, doc_fields = [(''ID'', ''b5''), (''BookName'', [CHR ''E'', CHR 0xFF]),
         (''BookAuthor'', ''Jos'' @ [CHR 0xC3, CHR 0xA9]), (''BookPages'', [])]\<rparr>]
   = Return (JSON 200 (JArray
      [JObject [(''id'', JString ''b4''), (''title'', JString ''Dune''),
         (''author'', JString ''Frank Herbert''), (''year'', JString ''1965'')],
       JObject [(''id'', JString ''b5''), (''title'', JString [CHR ''E'', CHR 0xEF, CHR 0xBF, CHR 0xBD]),
         (''author'', JString (''Jos'' @ [CHR 0xC3, CHR 0xA9]))]]))"
  using json_representation_law [of "healthy 0" "[]"]
    json_representation_law [of "healthy 0"
     "[\<lparr>oid = 7, doc_fields = [(''ID'', ''b4''), (''BookName'', ''Dune''),
         (''BookAuthor'', ''Frank Herbert''), (''BookYear'', ''1965'')]\<rparr>,
      \<lparr>oid = 8, doc_fields = [(''ID'', ''b5''), (''BookName'', [CHR ''E'', CHR 0xFF]),
         (''BookAuthor'', ''Jos'' @ [CHR 0xC3, CHR 0xA9]), (''BookPages'', [])]\<rparr>]"]
  by (simp add: get_api_books_def findAllBooks_def Find_def All_def healthy_def matches_def
      json_books_def to_json_def json_members_def json_omitempty_def decode_def field_def
      between_def)

text \<open>
  C8: \<^verbatim>\<open>POST /api/books\<close> answers 409 exactly when the lookup call succeeds and finds a
  match. Whenever the lookup gives an error, whichever it is, the answer is that of the
  insert alone; so after a failed lookup a successful insert is answered 201.
\<close>

theorem post_conflict_only_on_found:
  "(fst (post_books drv (Inr newBook) c) = JSON 409 (error_body ''Book already exists'')
      \<longleftrightarrow> find_one_err drv = None \<and> list_ex (matches (duplicate_filter newBook)) c) \<and>
   (FindOne_Err drv (duplicate_filter newBook) c \<noteq> None \<longrightarrow>
      post_books drv (Inr newBook) c =
        (case InsertOne drv newBook c of
           (Inl err, c') \<Rightarrow> (JSON 500 (error_body ''Could not insert book''), c')
         | (Inr r, c') \<Rightarrow> (JSON 201 (status_body ''Book created''), c'))) \<and>
   (find_one_err drv \<noteq> None \<and> insert_err drv = None \<longrightarrow>
      post_books drv (Inr newBook) c =
        (JSON 201 (status_body ''Book created''), c @ [to_document (new_id drv) newBook]))"
proof -
  have "FindOne_Err drv (duplicate_filter newBook) c = None \<or>
        (\<exists>e. FindOne_Err drv (duplicate_filter newBook) c = Some e)"
    by (cases "FindOne_Err drv (duplicate_filter newBook) c") simp_all
  moreover have "find_one_err drv \<noteq> None \<longrightarrow>
      FindOne_Err drv (duplicate_filter newBook) c \<noteq> None"
    by (simp add: FindOne_Err_None_iff)
  ultimately show ?thesis
    using FindOne_Err_None_iff [of drv "duplicate_filter newBook" c]
    by (auto simp: post_books_def InsertOne_def split: option.splits)
qed

theorem post_conflict_only_on_found_witness:
  "post_books ((healthy 7)\<lparr>find_one_err := Some (StorageError ''timeout'')\<rparr>)
     (Inr (hd startData)) [to_document 1 (hd startData)]
   = (JSON 201 (status_body ''Book created''),
      [to_document 1 (hd startData), to_document 7 (hd startData)])
   \<and> fst (post_books (healthy 7) (Inr (hd startData)) [to_document 1 (hd startData)])
     = JSON 409 (error_body ''Book already exists'')"
  using post_conflict_only_on_found
    [of "(healthy 7)\<lparr>find_one_err := Some (StorageError ''timeout'')\<rparr>" "hd startData"
        "[to_document 1 (hd startData)]"]
    post_conflict_only_on_found
    [of "healthy 7" "hd startData" "[to_document 1 (hd startData)]"]
  by (simp add: healthy_def startData_def duplicate_filter_def matches_def to_document_def
      marshal_def omitempty_def)

text \<open>
  C9: one \<^verbatim>\<open>PUT\<close> changes at most one document and one \<^verbatim>\<open>DELETE\<close> removes at most one
  document, whose external id is the one of the path; every other document stays, also
  those with the same external id.
\<close>

theorem at_most_one_document:
  "(snd (put_book drv i bound c) = c \<or>
    (\<exists>pre d post data. c = pre @ d # post \<and> bound = Inr data \<and>
       map_of (doc_fields d) ''ID'' = Some i \<and>
       snd (put_book drv i bound c) = pre @ apply_set (updateFields data) d # post)) \<and>
   (snd (delete_book drv i c) = c \<or>
    (\<exists>pre d post. c = pre @ d # post \<and> map_of (doc_fields d) ''ID'' = Some i \<and>
       snd (delete_book drv i c) = pre @ post))"
proof -
  have put: "snd (put_book drv i bound c) = c \<or>
    (\<exists>pre d post data. c = pre @ d # post \<and> bound = Inr data \<and>
       map_of (doc_fields d) ''ID'' = Some i \<and>
       snd (put_book drv i bound c) = pre @ apply_set (updateFields data) d # post)"
    using snd_put_book [of drv i bound c]
      update_first_cases [of "matches [(''ID'', Some i)]" _ c]
    by (metis matches_ID)
  have del: "snd (delete_book drv i c) = c \<or>
    (\<exists>pre d post. c = pre @ d # post \<and> map_of (doc_fields d) ''ID'' = Some i \<and>
       snd (delete_book drv i c) = pre @ post)"
    using snd_delete_book [of drv i c]
      delete_first_cases [of "matches [(''ID'', Some i)]" c]
    by (metis matches_ID)
  show ?thesis using put del by blast
qed


theorem at_most_one_document_witness:
  "snd (put_book (healthy 0) ''b4'' (Inr [''year'' \<mapsto> JString ''1965''])
      [\<lparr>oid = 1, doc_fields = [(''ID'', ''b4''), (''BookName'', ''Dune'')]\<rparr>,
       \<lparr>oid = 2, doc_fields = [(''ID'', ''b4''), (''BookName'', ''Emma'')]\<rparr>])
   = [\<lparr>oid = 1, doc_fields = [(''ID'', ''b4''), (''BookName'', ''Dune''), (''BookYear'', ''1965'')]\<rparr>,
      \<lparr>oid = 2, doc_fields = [(''ID'', ''b4''), (''BookName'', ''Emma'')]\<rparr>] \<and>
   snd (delete_book (healthy 0) ''b4''
      [\<lparr>oid = 1, doc_fields = [(''ID'', ''b4''), (''BookName'', ''Dune'')]\<rparr>,
       \<lparr>oid = 2, doc_fields = [(''ID'', ''b4''), (''BookName'', ''Emma'')]\<rparr>])
   = [\<lparr>oid = 2, doc_fields = [(''ID'', ''b4''), (''BookName'', ''Emma'')]\<rparr>]"
  using at_most_one_document [of "healthy 0" "''b4''" "Inr [''year'' \<mapsto> JString ''1965'']"
      "[\<lparr>oid = 1, doc_fields = [(''ID'', ''b4''), (''BookName'', ''Dune'')]\<rparr>,
        \<lparr>oid = 2, doc_fields = [(''ID'', ''b4''), (''BookName'', ''Emma'')]\<rparr>]"]
  by (simp add: put_book_def delete_book_def UpdateOne_def DeleteOne_def healthy_def
      updateFields_def assign_def as_string_def count_one_def apply_set_def)

text \<open>
  Against C10 as it is worded: with a template set in which \<^verbatim>\<open>book-table\<close> does not
  execute, and storage in order, \<^verbatim>\<open>GET /books\<close> neither answers 200 nor panics: it
  returns the error of the template to Echo.
\<close>

theorem books_page_template_error:
  "handled (\<lambda>name data. Inl (ExecuteError name)) (get_books (healthy 0) [])
     = Return (Inl (ExecuteError ''book-table''))"
  by (simp add: handled_def get_books_def findAllBooks_def Find_def All_def healthy_def)

text \<open>
  C10, amended: \<^verbatim>\<open>findAllBooks\<close> panics whenever the query or the cursor fails, and then
  so do \<^verbatim>\<open>GET /books\<close> and \<^verbatim>\<open>GET /api/books\<close>. Otherwise \<^verbatim>\<open>GET /api/books\<close> answers 200
  with the records found (\<^verbatim>\<open>null\<close> when there is none), and \<^verbatim>\<open>GET /books\<close> hands the
  records found to the template \<^verbatim>\<open>book-table\<close> with status 200: it answers 200 with the
  page, or returns the template's error without writing a response. The records found are
  all stored records when no document has a field with the empty name, which the filter
  of \<^verbatim>\<open>findAllBooks\<close> asks for. Neither handler writes a response with another status, and
  \<^verbatim>\<open>GET /api/books\<close> never returns an error.
\<close>

theorem list_routes_outcomes:
  "((find_err drv \<noteq> None \<or> all_err drv \<noteq> None) \<longrightarrow>
      (\<exists>e. findAllBooks drv c = Panic e) \<and>
      (\<exists>e. handled t (get_books drv c) = Panic e) \<and>
      (\<exists>e. handled t (get_api_books drv c) = Panic e)) \<and>
   (find_err drv = None \<and> all_err drv = None \<longrightarrow>
      findAllBooks drv c
        = Return (map decode (filter (\<lambda>d. map_of (doc_fields d) [] = None) c)) \<and>
      handled t (get_api_books drv c)
        = Return (Inr (JSONBody 200
            (json_books (map decode (filter (\<lambda>d. map_of (doc_fields d) [] = None) c))))) \<and>
      handled t (get_books drv c)
        = Return (case t ''book-table''
                         (BookRows (map decode (filter (\<lambda>d. map_of (doc_fields d) [] = None) c))) of
                    Inl e \<Rightarrow> Inl e
                  | Inr page \<Rightarrow> Inr (HTMLBlob 200 page))) \<and>
   ((\<forall>d \<in> set c. map_of (doc_fields d) [] = None) \<longrightarrow>
      ((\<exists>e. handled t (get_api_books drv c) = Panic e) \<or>
       handled t (get_api_books drv c)
         = Return (Inr (JSONBody 200 (json_books (map decode c))))) \<and>
      ((\<exists>e. handled t (get_books drv c) = Panic e) \<or>
       (\<exists>page. t ''book-table'' (BookRows (map decode c)) = Inr page \<and>
          handled t (get_books drv c) = Return (Inr (HTMLBlob 200 page))) \<or>
       (\<exists>e. t ''book-table'' (BookRows (map decode c)) = Inl e \<and>
          handled t (get_books drv c) = Return (Inl e)))) \<and>
   (\<forall>w. handled t (get_books drv c) = Return (Inr w) \<longrightarrow> code_of w = 200) \<and>
   (\<forall>w. handled t (get_api_books drv c) = Return (Inr w) \<longrightarrow> code_of w = 200) \<and>
   (\<forall>e. handled t (get_api_books drv c) \<noteq> Return (Inl e)) \<and>
   handled t (get_books drv c) \<noteq> Fatal \<and> handled t (get_api_books drv c) \<noteq> Fatal"
proof -
  let ?found = "filter (\<lambda>d. map_of (doc_fields d) [] = None) c"
  have all: "?found = c" if "\<forall>d \<in> set c. map_of (doc_fields d) [] = None"
    using that by (simp add: filter_id_conv)
  show ?thesis
  proof (cases "find_err drv = None \<and> all_err drv = None")
    case True
    then have found: "findAllBooks drv c = Return (map decode ?found)"
      by (simp add: findAllBooks_healthy)
    have api: "handled t (get_api_books drv c)
        = Return (Inr (JSONBody 200 (json_books (map decode ?found))))"
      by (simp add: handled_def get_api_books_def found)
    have page: "handled t (get_books drv c)
        = Return (case t ''book-table'' (BookRows (map decode ?found)) of
                    Inl e \<Rightarrow> Inl e | Inr page \<Rightarrow> Inr (HTMLBlob 200 page))"
      by (simp add: handled_def get_books_def found)
    show ?thesis
      using True found all
      by (auto simp: api page split: sum.splits)
  next
    case False
    then obtain e where "findAllBooks drv c = Panic e"
      using findAllBooks_failing [of drv c] by blast
    then have "handled t (get_books drv c) = Panic e"
      and "handled t (get_api_books drv c) = Panic e"
      by (simp_all add: handled_def get_books_def get_api_books_def)
    with False \<open>findAllBooks drv c = Panic e\<close> show ?thesis
      by auto
  qed
qed

theorem list_routes_outcomes_witness:
  "handled (\<lambda>name data. Inr name) (get_books ((healthy 0)\<lparr>all_err := Some (StorageError ''cursor'')\<rparr>)
      [to_document 1 (hd startData)]) = Panic (StorageError ''cursor'') \<and>
   handled (\<lambda>name data. Inr name) (get_api_books ((healthy 0)\<lparr>find_err := Some (StorageError ''down'')\<rparr>)
      [to_document 1 (hd startData)]) = Panic (StorageError ''down'') \<and>
   handled (\<lambda>name data. Inr name) (get_books (healthy 0) [to_document 1 (hd startData)])
     = Return (Inr (HTMLBlob 200 ''book-table'')) \<and>
   handled (\<lambda>name data. Inl (ExecuteError name)) (get_books (healthy 0) [to_document 1 (hd startData)])
     = Return (Inl (ExecuteError ''book-table'')) \<and>
   handled (\<lambda>name data. Inr name) (get_api_books (healthy 0) [to_document 1 (hd startData)])
     = Return (Inr (JSONBody 200 (JArray [to_json (hd startData)]))) \<and>
   handled (\<lambda>name data. Inr name) (get_api_books (healthy 0) [])
     = Return (Inr (JSONBody 200 JNull))"
  using list_routes_outcomes
      [of "(healthy 0)\<lparr>all_err := Some (StorageError ''cursor'')\<rparr>" "[to_document 1 (hd startData)]"
          "\<lambda>name data. Inr name"]
    list_routes_outcomes
      [of "(healthy 0)\<lparr>find_err := Some (StorageError ''down'')\<rparr>" "[to_document 1 (hd startData)]"
          "\<lambda>name data. Inr name"]
    list_routes_outcomes [of "healthy 0" "[to_document 1 (hd startData)]" "\<lambda>name data. Inr name"]
    list_routes_outcomes [of "healthy 0" "[to_document 1 (hd startData)]"
          "\<lambda>name data. Inl (ExecuteError name)"]
    list_routes_outcomes [of "healthy 0" "[]" "\<lambda>name data. Inr name"]
  by (simp add: handled_def get_books_def get_api_books_def findAllBooks_def Find_def All_def
      healthy_def matches_def to_document_def marshal_def omitempty_def startData_def decode_def
      field_def json_books_def to_json_def json_members_def json_omitempty_def NilObjectID_def
      between_def)

end
